theory Spec2Isabelle
  imports Main "HOL-Library.Sublist"
begin

section \<open>JavaScript values and built-ins used by the userscript\<close>

text \<open>
  The userscript \<^verbatim>\<open>reddit-thread-to-markdown.user.js\<close> reads a Reddit page and builds
  a Markdown text from it. The source file holds two scripts: the modular one
  (\<^verbatim>\<open>Logger\<close>, \<^verbatim>\<open>DOMUtils\<close>, \<^verbatim>\<open>FileUtils\<close>, \<^verbatim>\<open>MarkdownUtils\<close>, \<^verbatim>\<open>PostExtractor\<close>,
  \<^verbatim>\<open>CommentExtractor\<close>, \<^verbatim>\<open>scrapeThread\<close>) and one without modules (\<^verbatim>\<open>scrapeThread\<close>,
  \<^verbatim>\<open>processComment\<close>). Both are modelled.

  JavaScript strings are modelled as HOL strings: one \<^typ>\<open>char\<close> stands for one code
  unit below 256. Numbers are integers (scores and nesting levels); the model keeps
  them exact, as JavaScript does up to \<open>2^53\<close>. The limit of an engine on the length of
  a string is not modelled.
\<close>

datatype jsval = JUndefined | JNull | JStr string | JNum int

datatype js_error = RangeError

text \<open>Truthiness, as tested by \<^verbatim>\<open>!x\<close>, \<^verbatim>\<open>if (x)\<close> and \<^verbatim>\<open>x || y\<close>.\<close>

fun truthy :: "jsval \<Rightarrow> bool" where
  "truthy JUndefined = False"
| "truthy JNull = False"
| "truthy (JStr s) = (s \<noteq> [])"
| "truthy (JNum n) = (n \<noteq> 0)"

definition js_or :: "jsval \<Rightarrow> jsval \<Rightarrow> jsval" where
  "js_or a b = (if truthy a then a else b)"

text \<open>Decimal digits of a number, for template literals such as \<^verbatim>\<open>`${score}`\<close>.\<close>

definition digit_char :: "nat \<Rightarrow> char" where
  "digit_char d = ''0123456789'' ! d"

fun string_of_nat :: "nat \<Rightarrow> string" where
  "string_of_nat n =
     (if n < 10 then [digit_char n] else string_of_nat (n div 10) @ [digit_char (n mod 10)])"

declare string_of_nat.simps [simp del]

definition string_of_int :: "int \<Rightarrow> string" where
  "string_of_int i = (if i < 0 then CHR ''-'' # string_of_nat (nat (- i)) else string_of_nat (nat i))"

fun ToString :: "jsval \<Rightarrow> string" where
  "ToString JUndefined = ''undefined''"
| "ToString JNull = ''null''"
| "ToString (JStr s) = s"
| "ToString (JNum n) = string_of_int n"

text \<open>
  \<^verbatim>\<open>getAttribute\<close> returns a string or \<^verbatim>\<open>null\<close>; the attributes of an element are an
  association list from names to values.
\<close>

definition getAttribute :: "(string \<times> string) list \<Rightarrow> string \<Rightarrow> string option" where
  "getAttribute attrs name = map_of attrs name"

definition attr_val :: "string option \<Rightarrow> jsval" where
  "attr_val a = (case a of None \<Rightarrow> JNull | Some s \<Rightarrow> JStr s)"

text \<open>White space and line terminators among the code units below 256.\<close>

definition is_line_terminator :: "char \<Rightarrow> bool" where
  "is_line_terminator c = (c = CHR 0x0A \<or> c = CHR 0x0D)"

definition is_whitespace :: "char \<Rightarrow> bool" where
  "is_whitespace c =
     (c = CHR 0x09 \<or> c = CHR 0x0A \<or> c = CHR 0x0B \<or> c = CHR 0x0C \<or> c = CHR 0x0D
      \<or> c = CHR 0x20 \<or> c = CHR 0xA0)"

definition trim :: "string \<Rightarrow> string" where
  "trim s = rev (dropWhile is_whitespace (rev (dropWhile is_whitespace s)))"

definition is_digit :: "char \<Rightarrow> bool" where
  "is_digit c = (48 \<le> (of_char c :: nat) \<and> (of_char c :: nat) \<le> 57)"

definition digit_value :: "char \<Rightarrow> nat" where
  "digit_value c = of_char c - (48::nat)"

definition nat_of_digits :: "string \<Rightarrow> nat" where
  "nat_of_digits ds = foldl (\<lambda>acc c. 10 * acc + digit_value c) 0 ds"

text \<open>
  \<^verbatim>\<open>parseInt(x, 10)\<close> on a string or \<^verbatim>\<open>null\<close>: the argument is converted to a string
  (\<^verbatim>\<open>null\<close> becomes \<^verbatim>\<open>"null"\<close>), leading white space is skipped, one sign is read, then
  the longest run of decimal digits. \<open>None\<close> is \<^verbatim>\<open>NaN\<close>, returned exactly when there
  is no digit. The model gives the number of the digit run exactly. JavaScript gives
  the nearest double: the same number for a run of at most 15 digits (it is below
  \<open>2^53\<close>), a rounded one for longer runs and \<^verbatim>\<open>Infinity\<close> from about 309 digits on. A
  statement about the value read from an attribute is therefore made for runs of at most
  15 digits only.
\<close>

definition parseInt10 :: "string option \<Rightarrow> int option" where
  "parseInt10 a =
     (let s = dropWhile is_whitespace (ToString (attr_val a));
          neg = (case s of [] \<Rightarrow> False | c # _ \<Rightarrow> c = CHR ''-'');
          body = (case s of [] \<Rightarrow> [] | c # cs \<Rightarrow> if c = CHR ''-'' \<or> c = CHR ''+'' then cs else s);
          z = takeWhile is_digit body
      in if z = [] then None
         else Some (if neg then - int (nat_of_digits z) else int (nat_of_digits z)))"

text \<open>\<^verbatim>\<open>n || 0\<close> for a number \<open>n\<close>: \<^verbatim>\<open>NaN\<close> and \<open>0\<close> are falsy.\<close>

definition num_or_zero :: "int option \<Rightarrow> int" where
  "num_or_zero n = (case n of None \<Rightarrow> 0 | Some k \<Rightarrow> if k = 0 then 0 else k)"

text \<open>
  \<^verbatim>\<open>s.repeat(count)\<close> throws a \<^verbatim>\<open>RangeError\<close> on a negative count. In JavaScript it
  also throws when the count is \<^verbatim>\<open>Infinity\<close> or the result is longer than the engine
  allows; the model has neither infinite counts nor a limit, so its \<open>Inr\<close> results are
  those of the script only while the result fits the engine's limit. Its \<open>Inl\<close> result,
  for a negative count, is that of the script.
\<close>

definition js_repeat :: "string \<Rightarrow> int \<Rightarrow> js_error + string" where
  "js_repeat s count = (if count < 0 then Inl RangeError else Inr (concat (replicate (nat count) s)))"

text \<open>\<^verbatim>\<open>s.replace(/\n/g, r)\<close>: every line feed is replaced by \<open>r\<close>.\<close>

fun replace_newlines :: "string \<Rightarrow> string \<Rightarrow> string" where
  "replace_newlines [] r = []"
| "replace_newlines (c # cs) r =
     (if c = CHR 0x0A then r @ replace_newlines cs r else c # replace_newlines cs r)"

section \<open>Records produced by extraction\<close>

record postData =
  p_title :: jsval
  p_author :: jsval
  p_subreddit :: jsval
  p_score :: jsval
  p_content :: string

record commentData =
  c_author :: string
  c_score :: "string option"
  c_content :: string
  c_depth :: int

section \<open>MarkdownUtils\<close>

definition formatPostHeader :: "postData \<Rightarrow> string" where
  "formatPostHeader pd =
     ''# '' @ ToString (p_title pd) @ ''\<newline>\<newline>''
     @ ''**Subreddit:** r/'' @ ToString (p_subreddit pd) @ ''\<newline>''
     @ ''**Author:** u/'' @ ToString (p_author pd) @ ''\<newline>''
     @ ''**Score:** '' @ ToString (p_score pd) @ ''\<newline>\<newline>''"

definition formatComment :: "commentData \<Rightarrow> js_error + string" where
  "formatComment cd =
     (case js_repeat ''  '' (c_depth cd * 2) of
        Inl e \<Rightarrow> Inl e
      | Inr indent \<Rightarrow>
          Inr (indent @ ''- **u/'' @ c_author cd @ ''** (*'' @ ToString (attr_val (c_score cd))
                 @ '' points*):\<newline>''
               @ indent @ ''  > ''
                 @ replace_newlines (c_content cd) (''\<newline>'' @ indent @ ''  > '')
                 @ ''\<newline>\<newline>''))"

section \<open>FileUtils.generateFilename\<close>

text \<open>
  \<^verbatim>\<open>t.replace(/ : r\/.*/, "")\<close>: the first place where \<^verbatim>\<open>" : r/"\<close> occurs is matched
  together with the rest of its line (the dot does not match a line terminator), and
  the match is deleted; only the first match is replaced.
\<close>

definition subreddit_marker :: string where
  "subreddit_marker = '' : r/''"

fun strip_subreddit :: "string \<Rightarrow> string" where
  "strip_subreddit [] = []"
| "strip_subreddit (c # cs) =
     (if prefix subreddit_marker (c # cs)
      then dropWhile (\<lambda>x. \<not> is_line_terminator x) (drop (length subreddit_marker) (c # cs))
      else c # strip_subreddit cs)"

definition is_alnum :: "char \<Rightarrow> bool" where
  "is_alnum c =
     ((97 \<le> (of_char c :: nat) \<and> (of_char c :: nat) \<le> 122)
      \<or> (65 \<le> (of_char c :: nat) \<and> (of_char c :: nat) \<le> 90) \<or> is_digit c)"

text \<open>\<^verbatim>\<open>.replace(/[^a-z0-9]/gi, "_")\<close> and \<^verbatim>\<open>.toLowerCase()\<close> on the result.\<close>

definition sanitize_char :: "char \<Rightarrow> char" where
  "sanitize_char c = (if is_alnum c then c else CHR ''_'')"

definition lower_char :: "char \<Rightarrow> char" where
  "lower_char c =
     (if 65 \<le> (of_char c :: nat) \<and> (of_char c :: nat) \<le> 90
      then char_of (of_char c + (32::nat)) else c)"

definition generateFilename :: "string \<Rightarrow> string" where
  "generateFilename document_title =
     map lower_char (map sanitize_char (strip_subreddit document_title)) @ ''.md''"

section \<open>The page, the console and the sink\<close>

text \<open>
  The host page is read through DOM queries only. The model takes the answers of these
  queries as its input: the typed properties and attributes of the \<^verbatim>\<open>shreddit-post\<close>
  element, the inner text of the first node matched by \<^verbatim>\<open>[id$="-post-rtjson-content"]\<close>,
  the \<^verbatim>\<open>shreddit-comment\<close> elements below \<^verbatim>\<open>shreddit-comment-tree\<close> in document order,
  and for each of them its attributes and the inner text of the first node matched by
  \<^verbatim>\<open>[id$="-comment-rtjson-content"] > div\<close>.
\<close>

record post_element =
  pe_postTitle :: jsval
  pe_author :: jsval
  pe_subredditName :: jsval
  pe_score :: jsval
  pe_attributes :: "(string \<times> string) list"
  pe_body :: "string option"

record comment_element =
  ce_attributes :: "(string \<times> string) list"
  ce_content :: "string option"

record document =
  doc_title :: string
  shreddit_post :: "post_element option"
  shreddit_comment_tree :: "comment_element list option"

datatype element = PostElement post_element | CommentTree "comment_element list"

definition document_querySelector :: "document \<Rightarrow> string \<Rightarrow> element option" where
  "document_querySelector d selector =
     (if selector = ''shreddit-post'' then map_option PostElement (shreddit_post d)
      else if selector = ''shreddit-comment-tree'' then map_option CommentTree (shreddit_comment_tree d)
      else None)"

text \<open>
  Every logged line starts with \<^verbatim>\<open>getPrefix()\<close>, which reads the clock; a console entry
  keeps the level, the time string of the prefix and the text (object arguments are left
  out). \<^verbatim>\<open>URL.createObjectURL\<close> returns a fresh URL on each call. The sink receives one
  pair of file name and content for each download.
\<close>

datatype level = LOG | WARN | ERROR

datatype console_entry = Entry level string string | Dir "(string \<times> string) list"

record world =
  page :: document
  clock :: "nat \<Rightarrow> string"
  clock_reads :: nat
  object_urls :: "nat \<Rightarrow> string"
  urls_created :: nat
  console :: "console_entry list"
  downloads :: "(string \<times> string) list"

definition Logger_emit :: "level \<Rightarrow> string \<Rightarrow> world \<Rightarrow> world" where
  "Logger_emit lvl msg w =
     w\<lparr>clock_reads := Suc (clock_reads w),
       console := console w @ [Entry lvl (clock w (clock_reads w)) msg]\<rparr>"

definition Logger_log :: "string \<Rightarrow> world \<Rightarrow> world" where
  "Logger_log = Logger_emit LOG"

definition Logger_warn :: "string \<Rightarrow> world \<Rightarrow> world" where
  "Logger_warn = Logger_emit WARN"

definition Logger_error :: "string \<Rightarrow> world \<Rightarrow> world" where
  "Logger_error = Logger_emit ERROR"

definition Logger_debug :: "(string \<times> string) list \<Rightarrow> world \<Rightarrow> world" where
  "Logger_debug attrs w = w\<lparr>console := console w @ [Dir attrs]\<rparr>"

section \<open>DOMUtils\<close>

definition DOMUtils_querySelector :: "string \<Rightarrow> string \<Rightarrow> world \<Rightarrow> element option \<times> world" where
  "DOMUtils_querySelector selector description w =
     (let element = document_querySelector (page w) selector
      in (element,
          if element \<noteq> None then Logger_log (''Found '' @ description @ ''.'') w
          else Logger_error (''Could not find '' @ description @ '' with selector: '' @ selector) w))"

definition DOMUtils_logElementAttributes :: "(string \<times> string) list \<Rightarrow> string \<Rightarrow> world \<Rightarrow> world" where
  "DOMUtils_logElementAttributes attributes description w =
     Logger_debug attributes (Logger_log (''Inspecting '' @ description @ '' attributes:'') w)"

section \<open>FileUtils.downloadMarkdown\<close>

definition downloadMarkdown :: "string \<Rightarrow> string \<Rightarrow> world \<Rightarrow> world" where
  "downloadMarkdown content filename w =
     (let w1 = Logger_log ''Creating Blob for download...'' w;
          w2 = Logger_log ''Blob created:'' w1;
          url = object_urls w2 (urls_created w2);
          w3 = w2\<lparr>urls_created := Suc (urls_created w2)\<rparr>;
          w4 = Logger_log (''Object URL created: '' @ url) w3;
          w5 = Logger_log ''Initiating download via temporary anchor element...'' w4
      in w5\<lparr>downloads := downloads w5 @ [(filename, content)]\<rparr>)"

section \<open>PostExtractor and CommentExtractor\<close>

definition extractPostData :: "post_element option \<Rightarrow> world \<Rightarrow> postData option \<times> world" where
  "extractPostData postElement w =
     (case postElement of
        None \<Rightarrow> (None, Logger_error ''No post element provided for extraction.'' w)
      | Some pe \<Rightarrow>
          (let w1 = DOMUtils_logElementAttributes (pe_attributes pe) ''shreddit-post element'' w;
               title = js_or (pe_postTitle pe) (attr_val (getAttribute (pe_attributes pe) ''post-title''));
               author = js_or (pe_author pe) (attr_val (getAttribute (pe_attributes pe) ''author''));
               subreddit = js_or (pe_subredditName pe)
                             (attr_val (getAttribute (pe_attributes pe) ''subreddit-name''));
               score = js_or (pe_score pe) (attr_val (getAttribute (pe_attributes pe) ''score''));
               w2 = Logger_log (''  - Title: '' @ ToString title) w1;
               w3 = Logger_log (''  - Author: u/'' @ ToString author) w2;
               w4 = Logger_log (''  - Subreddit: r/'' @ ToString subreddit) w3;
               w5 = Logger_log (''  - Score: '' @ ToString score) w4;
               (content, w6) =
                  (case pe_body pe of
                     Some innerText \<Rightarrow>
                       (trim innerText,
                        Logger_log (''  - Post body found with length: ''
                                    @ string_of_nat (length (trim innerText))) w5)
                   | None \<Rightarrow> ([], Logger_warn ''  - Post body content element not found.'' w5))
           in (Some \<lparr>p_title = title, p_author = author, p_subreddit = subreddit,
                      p_score = score, p_content = content\<rparr>, w6)))"

definition extractCommentData :: "comment_element \<Rightarrow> world \<Rightarrow> commentData option \<times> world" where
  "extractCommentData commentElement w =
     (let depth = num_or_zero (parseInt10 (getAttribute (ce_attributes commentElement) ''depth''));
          author = getAttribute (ce_attributes commentElement) ''author'';
          score = getAttribute (ce_attributes commentElement) ''score''
      in case ce_content commentElement of
           None \<Rightarrow> (None, Logger_warn ''Could not extract full details from a comment.'' w)
         | Some innerText \<Rightarrow>
             if \<not> truthy (attr_val author)
             then (None, Logger_warn ''Could not extract full details from a comment.'' w)
             else (Some \<lparr>c_author = ToString (attr_val author), c_score = score,
                          c_content = trim innerText, c_depth = depth\<rparr>, w))"

primrec extractAllComments_loop ::
  "comment_element list \<Rightarrow> nat \<Rightarrow> nat \<Rightarrow> commentData list \<Rightarrow> world \<Rightarrow> commentData list \<times> world"
where
  "extractAllComments_loop [] i n commentData w = (commentData, w)"
| "extractAllComments_loop (c # cs) i n commentData w =
     (let w1 = Logger_log (''  - Processing comment '' @ string_of_nat (i + 1) @ '' of ''
                           @ string_of_nat n @ ''...'') w;
          (data, w2) = extractCommentData c w1
      in extractAllComments_loop cs (i + 1) n
           (case data of None \<Rightarrow> commentData | Some d \<Rightarrow> commentData @ [d]) w2)"

definition extractAllComments :: "world \<Rightarrow> commentData list \<times> world" where
  "extractAllComments w =
     (case DOMUtils_querySelector ''shreddit-comment-tree'' ''comment tree'' w of
        (Some (CommentTree comments), w1) \<Rightarrow>
          extractAllComments_loop comments 0 (length comments) []
            (Logger_log (''  - Found '' @ string_of_nat (length comments)
                         @ '' comment elements to process.'') w1)
      | (_, w1) \<Rightarrow> ([], w1))"

section \<open>scrapeThread\<close>

primrec formatComments :: "string \<Rightarrow> commentData list \<Rightarrow> js_error + string" where
  "formatComments markdownContent [] = Inr markdownContent"
| "formatComments markdownContent (commentData # rest) =
     (case formatComment commentData of
        Inl e \<Rightarrow> Inl e
      | Inr s \<Rightarrow> formatComments (markdownContent @ s) rest)"

text \<open>
  The result of \<open>scrapeThread\<close> is \<open>Some e\<close> when the run ended with the exception \<open>e\<close>
  (the promise of the async function is rejected), \<open>None\<close> when it returned.
\<close>

definition scrapeThread :: "world \<Rightarrow> js_error option \<times> world" where
  "scrapeThread w0 =
     (let w1 = Logger_log ''--- SCRAPE PROCESS INITIATED ---'' w0;
          w2 = Logger_log ''Step 1: Scraping main post...'' w1
      in case DOMUtils_querySelector ''shreddit-post'' ''main post element'' w2 of
           (Some (PostElement pe), w3) \<Rightarrow>
             (case extractPostData (Some pe) w3 of
                (None, w4) \<Rightarrow>
                  (None, Logger_error ''Execution stopped: Could not extract post data.'' w4)
              | (Some postData, w4) \<Rightarrow>
                  (let md1 = formatPostHeader postData;
                       md2 = (if p_content postData \<noteq> [] then md1 @ p_content postData @ ''\<newline>\<newline>''
                              else md1);
                       w5 = Logger_log ''Step 1: Main post scraping complete.'' w4;
                       md3 = md2 @ ''---\<newline>\<newline>## Comments\<newline>\<newline>'';
                       w6 = Logger_log ''Step 2: Scraping comments...'' w5;
                       (commentsData, w7) = extractAllComments w6
                   in case formatComments md3 commentsData of
                        Inl e \<Rightarrow> (Some e, w7)
                      | Inr markdownContent \<Rightarrow>
                          (let w8 = Logger_log ''Step 2: Comment scraping complete.'' w7;
                               w9 = Logger_log ''Step 3: Preparing file for download...'' w8;
                               filename = generateFilename (doc_title (page w9));
                               w10 = Logger_log (''  - Filename set to: '' @ filename) w9;
                               w11 = Logger_log (''  - Total markdown content length: ''
                                                 @ string_of_nat (length markdownContent)) w10;
                               w12 = downloadMarkdown markdownContent filename w11
                           in (None, Logger_log (''--- SCRAPE PROCESS COMPLETE: Download initiated for ''
                                                 @ filename @ '' ---'') w12))))
         | (_, w3) \<Rightarrow>
             (None, Logger_error
                      ''Execution stopped: Could not find the main post element during scrape.'' w3))"

section \<open>The script without modules\<close>

text \<open>
  The second script of the source file does the same work in two functions,
  \<^verbatim>\<open>scrapeThread\<close> and \<^verbatim>\<open>processComment\<close>, which call \<^verbatim>\<open>document.querySelector\<close> and
  \<^verbatim>\<open>console.log(getPrefix(), ...)\<close> directly. Its \<^verbatim>\<open>scrapeThread\<close> is \<open>scrapeThread_inline\<close>
  here, written in its three steps. Its download steps are those of \<open>downloadMarkdown\<close>,
  line by line.
\<close>

definition processComment :: "comment_element \<Rightarrow> world \<Rightarrow> (js_error + string) \<times> world" where
  "processComment commentElement w =
     (let depth = num_or_zero (parseInt10 (getAttribute (ce_attributes commentElement) ''depth''))
      in case js_repeat ''  '' (depth * 2) of
           Inl e \<Rightarrow> (Inl e, w)
         | Inr indent \<Rightarrow>
             (let author = getAttribute (ce_attributes commentElement) ''author'';
                  score = getAttribute (ce_attributes commentElement) ''score''
              in case ce_content commentElement of
                   None \<Rightarrow>
                     (Inr [], Logger_warn ''    - Could not extract full details from a comment.'' w)
                 | Some innerText \<Rightarrow>
                     if truthy (attr_val author)
                     then (Inr (indent @ ''- **u/'' @ ToString (attr_val author) @ ''** (*''
                                  @ ToString (attr_val score) @ '' points*):\<newline>''
                                @ indent @ ''  > ''
                                  @ replace_newlines (trim innerText) (''\<newline>'' @ indent @ ''  > '')
                                  @ ''\<newline>\<newline>''), w)
                     else (Inr [],
                           Logger_warn ''    - Could not extract full details from a comment.'' w)))"

primrec processComments_loop ::
  "comment_element list \<Rightarrow> nat \<Rightarrow> nat \<Rightarrow> string \<Rightarrow> world \<Rightarrow> (js_error + string) \<times> world"
where
  "processComments_loop [] i n markdownContent w = (Inr markdownContent, w)"
| "processComments_loop (c # cs) i n markdownContent w =
     (let w1 = Logger_log (''  - Processing comment '' @ string_of_nat (i + 1) @ '' of ''
                           @ string_of_nat n @ ''...'') w
      in case processComment c w1 of
           (Inl e, w2) \<Rightarrow> (Inl e, w2)
         | (Inr s, w2) \<Rightarrow> processComments_loop cs (i + 1) n (markdownContent @ s) w2)"

text \<open>Step 1 of the inline \<^verbatim>\<open>scrapeThread\<close>, for a post element that was found.\<close>

definition scrapeThread_inline_post :: "post_element \<Rightarrow> world \<Rightarrow> string \<times> world" where
  "scrapeThread_inline_post pe w2 =
     (let w3 = Logger_debug (pe_attributes pe)
                 (Logger_log ''Inspecting shreddit-post element attributes:'' w2);
          title = js_or (pe_postTitle pe) (attr_val (getAttribute (pe_attributes pe) ''post-title''));
          author = js_or (pe_author pe) (attr_val (getAttribute (pe_attributes pe) ''author''));
          subreddit = js_or (pe_subredditName pe)
                        (attr_val (getAttribute (pe_attributes pe) ''subreddit-name''));
          score = js_or (pe_score pe) (attr_val (getAttribute (pe_attributes pe) ''score''));
          w4 = Logger_log (''  - Title: '' @ ToString title) w3;
          w5 = Logger_log (''  - Author: u/'' @ ToString author) w4;
          w6 = Logger_log (''  - Subreddit: r/'' @ ToString subreddit) w5;
          w7 = Logger_log (''  - Score: '' @ ToString score) w6;
          md1 = ''# '' @ ToString title @ ''\<newline>\<newline>''
                @ ''**Subreddit:** r/'' @ ToString subreddit @ ''\<newline>''
                @ ''**Author:** u/'' @ ToString author @ ''\<newline>''
                @ ''**Score:** '' @ ToString score @ ''\<newline>\<newline>'';
          (md2, w8) =
             (case pe_body pe of
                Some innerText \<Rightarrow>
                  (md1 @ trim innerText @ ''\<newline>\<newline>'',
                   Logger_log (''  - Post body found with length: ''
                               @ string_of_nat (length (trim innerText))) w7)
              | None \<Rightarrow> (md1, Logger_warn ''  - Post body content element not found.'' w7))
      in (md2, Logger_log ''Step 1: Main post scraping complete.'' w8))"

text \<open>Step 2: the comments are appended to the text built so far.\<close>

definition scrapeThread_inline_comments :: "string \<Rightarrow> world \<Rightarrow> (js_error + string) \<times> world" where
  "scrapeThread_inline_comments md3 w9 =
     (let w10 = Logger_log ''Step 2: Scraping comments...'' w9
      in case document_querySelector (page w10) ''shreddit-comment-tree'' of
           Some (CommentTree comments) \<Rightarrow>
             (case processComments_loop comments 0 (length comments) md3
                     (Logger_log (''  - Found '' @ string_of_nat (length comments)
                                  @ '' comment elements to process.'') w10) of
                (Inl e, w') \<Rightarrow> (Inl e, w')
              | (Inr md, w') \<Rightarrow> (Inr md, Logger_log ''Step 2: Comment scraping complete.'' w'))
         | _ \<Rightarrow>
             (Inr md3, Logger_error ''Execution stopped: Could not find the comment tree.'' w10))"

text \<open>Step 3: file name and download.\<close>

definition scrapeThread_inline_download :: "string \<Rightarrow> world \<Rightarrow> world" where
  "scrapeThread_inline_download markdownContent w11 =
     (let w12 = Logger_log ''Step 3: Preparing file for download...'' w11;
          filename = generateFilename (doc_title (page w12));
          w13 = Logger_log (''  - Filename set to: '' @ filename) w12;
          w14 = Logger_log (''  - Total markdown content length: ''
                            @ string_of_nat (length markdownContent)) w13;
          w15 = downloadMarkdown markdownContent filename w14
      in Logger_log (''--- SCRAPE PROCESS COMPLETE: Download initiated for ''
                     @ filename @ '' ---'') w15)"

definition scrapeThread_inline :: "world \<Rightarrow> js_error option \<times> world" where
  "scrapeThread_inline w0 =
     (let w1 = Logger_log ''--- SCRAPE PROCESS INITIATED ---'' w0;
          w2 = Logger_log ''Step 1: Scraping main post...'' w1
      in case document_querySelector (page w2) ''shreddit-post'' of
           Some (PostElement pe) \<Rightarrow>
             (let (md2, w9) = scrapeThread_inline_post pe w2;
                  md3 = md2 @ ''---\<newline>\<newline>## Comments\<newline>\<newline>''
              in case scrapeThread_inline_comments md3 w9 of
                   (Inl e, w11) \<Rightarrow> (Some e, w11)
                 | (Inr markdownContent, w11) \<Rightarrow>
                     (None, scrapeThread_inline_download markdownContent w11))
         | _ \<Rightarrow>
             (None, Logger_error
                      ''Execution stopped: Could not find the main post element during scrape.'' w2))"

section \<open>The records and the text of a run, as functions of the page\<close>

text \<open>
  The extraction functions above thread the console through every step. Their results
  do not depend on it; the functions below give the results alone, and the lemmas of the
  next section show that they agree with the functions of the script.
\<close>

definition comment_record :: "comment_element \<Rightarrow> commentData option" where
  "comment_record ce =
     (case ce_content ce of
        None \<Rightarrow> None
      | Some innerText \<Rightarrow>
          if truthy (attr_val (getAttribute (ce_attributes ce) ''author''))
          then Some \<lparr>c_author = ToString (attr_val (getAttribute (ce_attributes ce) ''author'')),
                     c_score = getAttribute (ce_attributes ce) ''score'',
                     c_content = trim innerText,
                     c_depth = num_or_zero (parseInt10 (getAttribute (ce_attributes ce) ''depth''))\<rparr>
          else None)"

definition comment_records :: "document \<Rightarrow> commentData list" where
  "comment_records d =
     (case shreddit_comment_tree d of
        None \<Rightarrow> []
      | Some comments \<Rightarrow> List.map_filter comment_record comments)"

definition post_record :: "post_element \<Rightarrow> postData" where
  "post_record pe =
     \<lparr>p_title = js_or (pe_postTitle pe) (attr_val (getAttribute (pe_attributes pe) ''post-title'')),
      p_author = js_or (pe_author pe) (attr_val (getAttribute (pe_attributes pe) ''author'')),
      p_subreddit = js_or (pe_subredditName pe)
                      (attr_val (getAttribute (pe_attributes pe) ''subreddit-name'')),
      p_score = js_or (pe_score pe) (attr_val (getAttribute (pe_attributes pe) ''score'')),
      p_content = (case pe_body pe of None \<Rightarrow> [] | Some innerText \<Rightarrow> trim innerText)\<rparr>"

text \<open>
  The text that \<open>scrapeThread\<close> accumulates in \<^verbatim>\<open>markdownContent\<close> from the post record
  and the comment records: header, body if any, separator block, comments in order.
\<close>

definition thread_markdown :: "postData \<Rightarrow> commentData list \<Rightarrow> js_error + string" where
  "thread_markdown pd cs =
     formatComments
       ((if p_content pd \<noteq> [] then formatPostHeader pd @ p_content pd @ ''\<newline>\<newline>''
         else formatPostHeader pd) @ ''---\<newline>\<newline>## Comments\<newline>\<newline>'') cs"

definition run_output :: "document \<Rightarrow> (string \<times> string) list" where
  "run_output d =
     (case shreddit_post d of
        None \<Rightarrow> []
      | Some pe \<Rightarrow>
          (case thread_markdown (post_record pe) (comment_records d) of
             Inl e \<Rightarrow> []
           | Inr md \<Rightarrow> [(generateFilename (doc_title d), md)]))"

text \<open>The same for the script without modules.\<close>

definition inline_comment_text :: "comment_element \<Rightarrow> js_error + string" where
  "inline_comment_text ce =
     (case js_repeat ''  '' (num_or_zero (parseInt10 (getAttribute (ce_attributes ce) ''depth'')) * 2) of
        Inl e \<Rightarrow> Inl e
      | Inr indent \<Rightarrow> (case comment_record ce of None \<Rightarrow> Inr [] | Some r \<Rightarrow> formatComment r))"

primrec inline_comments_text :: "string \<Rightarrow> comment_element list \<Rightarrow> js_error + string" where
  "inline_comments_text md [] = Inr md"
| "inline_comments_text md (c # cs) =
     (case inline_comment_text c of
        Inl e \<Rightarrow> Inl e
      | Inr s \<Rightarrow> inline_comments_text (md @ s) cs)"

definition inline_markdown :: "post_element \<Rightarrow> comment_element list option \<Rightarrow> js_error + string" where
  "inline_markdown pe tree =
     (let md3 = formatPostHeader (post_record pe)
                @ (case pe_body pe of None \<Rightarrow> [] | Some innerText \<Rightarrow> trim innerText @ ''\<newline>\<newline>'')
                @ ''---\<newline>\<newline>## Comments\<newline>\<newline>''
      in case tree of None \<Rightarrow> Inr md3 | Some comments \<Rightarrow> inline_comments_text md3 comments)"

definition run_output_inline :: "document \<Rightarrow> (string \<times> string) list" where
  "run_output_inline d =
     (case shreddit_post d of
        None \<Rightarrow> []
      | Some pe \<Rightarrow>
          (case inline_markdown pe (shreddit_comment_tree d) of
             Inl e \<Rightarrow> []
           | Inr md \<Rightarrow> [(generateFilename (doc_title d), md)]))"

text \<open>The depth attribute is written with a minus sign (after white space).\<close>

definition minus_signed :: "string option \<Rightarrow> bool" where
  "minus_signed a =
     (case a of
        None \<Rightarrow> False
      | Some s \<Rightarrow> (case dropWhile is_whitespace s of [] \<Rightarrow> False | c # _ \<Rightarrow> c = CHR ''-''))"

text \<open>The run of decimal digits that \<^verbatim>\<open>parseInt\<close> reads from the attribute.\<close>

definition depth_digits :: "string option \<Rightarrow> string" where
  "depth_digits a =
     (let s = dropWhile is_whitespace (ToString (attr_val a));
          body = (case s of [] \<Rightarrow> [] | c # cs \<Rightarrow> if c = CHR ''-'' \<or> c = CHR ''+'' then cs else s)
      in takeWhile is_digit body)"

section \<open>Nested comments\<close>







section \<open>The reference definition of the file name\<close>

text \<open>
  The specification describes the file name by a reference definition, \<open>deriveFilename\<close>:
  strip a trailing " : r/<subreddit>" suffix if present, replace every character that
  is not an ASCII letter or digit by "_", lowercase the result, append ".md". The
  definitions below follow these words, not the script. A subreddit name is read as a
  non-empty run of ASCII letters, digits and underscores.
\<close>

definition subreddit_name_char :: "char \<Rightarrow> bool" where
  "subreddit_name_char c = (is_alnum c \<or> c = CHR ''_'')"

definition strip_trailing_subreddit :: "string \<Rightarrow> string" where
  "strip_trailing_subreddit t =
     (let name = rev (takeWhile subreddit_name_char (rev t));
          front = take (length t - length name) t
      in if name \<noteq> [] \<and> suffix subreddit_marker front
         then take (length front - length subreddit_marker) front else t)"

definition deriveFilename :: "string \<Rightarrow> string" where
  "deriveFilename pageTitle =
     map lower_char (map sanitize_char (strip_trailing_subreddit pageTitle)) @ ''.md''"

text \<open>The text " : r/" occurs somewhere in the string.\<close>

fun has_marker :: "string \<Rightarrow> bool" where
  "has_marker [] = False"
| "has_marker (c # cs) = (prefix subreddit_marker (c # cs) \<or> has_marker cs)"

text \<open>The characters of the stem of a generated file name.\<close>

definition lower_alnum_or_underscore :: "char \<Rightarrow> bool" where
  "lower_alnum_or_underscore c =
     ((97 \<le> (of_char c :: nat) \<and> (of_char c :: nat) \<le> 122) \<or> is_digit c \<or> c = CHR ''_'')"

section \<open>Example inputs\<close>

definition noon :: "nat \<Rightarrow> string" where
  "noon k = ''12:00:00''"

definition midnight :: "nat \<Rightarrow> string" where
  "midnight k = ''00:00:00''"

definition blob_url :: "nat \<Rightarrow> string" where
  "blob_url k = ''blob:'' @ string_of_nat k"

definition fresh_world :: "document \<Rightarrow> world" where
  "fresh_world d =
     \<lparr>page = d, clock = noon, clock_reads = 0, object_urls = blob_url, urls_created = 0,
      console = [], downloads = []\<rparr>"

definition hello_post :: postData where
  "hello_post =
     \<lparr>p_title = JStr ''Hello World'', p_author = JStr ''alice'', p_subreddit = JStr ''test'',
      p_score = JStr ''10'', p_content = []\<rparr>"

definition hello_element :: post_element where
  "hello_element =
     \<lparr>pe_postTitle = JStr ''Hello World'', pe_author = JStr ''alice'',
      pe_subredditName = JStr ''test'', pe_score = JUndefined,
      pe_attributes = [(''score'', ''10'')], pe_body = None\<rparr>"

definition hello_page :: document where
  "hello_page =
     \<lparr>doc_title = ''Hello World : r/test'', shreddit_post = Some hello_element,
      shreddit_comment_tree = Some []\<rparr>"

definition carol_reply :: commentData where
  "carol_reply = \<lparr>c_author = ''carol'', c_score = Some ''2'', c_content = ''Re: hi'', c_depth = 1\<rparr>"


definition without_comment_tree :: document where
  "without_comment_tree =
     \<lparr>doc_title = ''Hello World : r/test'', shreddit_post = Some hello_element,
      shreddit_comment_tree = None\<rparr>"

definition falsy_element :: post_element where
  "falsy_element =
     \<lparr>pe_postTitle = JStr [], pe_author = JUndefined, pe_subredditName = JNull,
      pe_score = JNum 0,
      pe_attributes = [(''post-title'', ''From attribute''), (''author'', ''alice''),
                       (''subreddit-name'', ''test''), (''score'', ''42'')],
      pe_body = None\<rparr>"

definition falsy_record :: postData where
  "falsy_record =
     \<lparr>p_title = JStr ''From attribute'', p_author = JStr ''alice'', p_subreddit = JStr ''test'',
      p_score = JStr ''42'', p_content = []\<rparr>"

definition unscored_comment :: comment_element where
  "unscored_comment = \<lparr>ce_attributes = [(''author'', ''bob''), (''depth'', ''0'')], ce_content = Some ''Hi''\<rparr>"

definition unscored_record :: commentData where
  "unscored_record = \<lparr>c_author = ''bob'', c_score = None, c_content = ''Hi'', c_depth = 0\<rparr>"

definition worded_score_comment :: comment_element where
  "worded_score_comment =
     \<lparr>ce_attributes = [(''author'', ''bob''), (''score'', ''many''), (''depth'', ''0'')],
      ce_content = Some ''Hi''\<rparr>"

definition worded_score_record :: commentData where
  "worded_score_record = \<lparr>c_author = ''bob'', c_score = Some ''many'', c_content = ''Hi'', c_depth = 0\<rparr>"

definition negative_depth_comment :: comment_element where
  "negative_depth_comment =
     \<lparr>ce_attributes = [(''author'', ''bob''), (''score'', ''5''), (''depth'', ''-1'')],
      ce_content = Some ''Hi''\<rparr>"

definition negative_depth_record :: commentData where
  "negative_depth_record = \<lparr>c_author = ''bob'', c_score = Some ''5'', c_content = ''Hi'', c_depth = - 1\<rparr>"

definition negative_depth_page :: document where
  "negative_depth_page =
     \<lparr>doc_title = ''Hello World : r/test'', shreddit_post = Some hello_element,
      shreddit_comment_tree = Some [negative_depth_comment]\<rparr>"


definition bob_comment :: comment_element where
  "bob_comment =
     \<lparr>ce_attributes = [(''author'', ''bob''), (''score'', ''5''), (''depth'', ''0'')],
      ce_content = Some ''Hi''\<rparr>"

definition carol_comment :: comment_element where
  "carol_comment =
     \<lparr>ce_attributes = [(''author'', ''carol''), (''score'', ''2''), (''depth'', ''1'')],
      ce_content = Some ''Re: hi''\<rparr>"

definition thread_page :: "comment_element list \<Rightarrow> document" where
  "thread_page comments =
     \<lparr>doc_title = ''Hello World : r/test'', shreddit_post = Some hello_element,
      shreddit_comment_tree = Some comments\<rparr>"

definition later_world :: "document \<Rightarrow> world" where
  "later_world d =
     \<lparr>page = d, clock = midnight, clock_reads = 7, object_urls = blob_url, urls_created = 3,
      console = [Dir []], downloads = []\<rparr>"

definition plain_comment :: comment_element where
  "plain_comment = \<lparr>ce_attributes = [(''author'', ''dave'')], ce_content = Some '' ok ''\<rparr>"

definition anonymous_negative_comment :: comment_element where
  "anonymous_negative_comment =
     \<lparr>ce_attributes = [(''score'', ''3''), (''depth'', ''-1'')], ce_content = Some ''lost''\<rparr>"



section \<open>The script's functions and the console\<close>

lemma Logger_emit_frame [simp]:
  "page (Logger_emit l m w) = page w"
  "downloads (Logger_emit l m w) = downloads w"
  "clock (Logger_emit l m w) = clock w"
  "object_urls (Logger_emit l m w) = object_urls w"
  "urls_created (Logger_emit l m w) = urls_created w"
  "clock_reads (Logger_emit l m w) = Suc (clock_reads w)"
  "console (Logger_emit l m w) = console w @ [Entry l (clock w (clock_reads w)) m]"
  by (simp_all add: Logger_emit_def)

lemma Logger_debug_frame [simp]:
  "page (Logger_debug a w) = page w"
  "downloads (Logger_debug a w) = downloads w"
  by (simp_all add: Logger_debug_def)

lemmas Logger_defs = Logger_log_def Logger_warn_def Logger_error_def

lemma downloadMarkdown_frame [simp]:
  "page (downloadMarkdown c f w) = page w"
  "downloads (downloadMarkdown c f w) = downloads w @ [(f, c)]"
  by (simp_all add: downloadMarkdown_def Let_def Logger_defs)

lemma extractCommentData_fst [simp]: "fst (extractCommentData c w) = comment_record c"
  by (simp add: extractCommentData_def comment_record_def Let_def split: option.splits)

lemma extractCommentData_frame [simp]:
  "page (snd (extractCommentData c w)) = page w"
  "downloads (snd (extractCommentData c w)) = downloads w"
  by (simp_all add: extractCommentData_def Let_def Logger_defs split: option.splits)

lemma extractAllComments_loop_fst:
  "fst (extractAllComments_loop cs i n acc w) = acc @ List.map_filter comment_record cs"
proof (induction cs arbitrary: i acc w)
  case Nil
  then show ?case by simp
next
  case (Cons c cs)
  show ?case
    by (cases "comment_record c") (simp_all add: Let_def case_prod_beta Cons.IH)
qed

lemma extractAllComments_loop_frame:
  "page (snd (extractAllComments_loop cs i n acc w)) = page w \<and>
   downloads (snd (extractAllComments_loop cs i n acc w)) = downloads w"
  by (induction cs arbitrary: i acc w) (simp_all add: Let_def case_prod_beta Logger_defs)

lemma extractAllComments_fst [simp]: "fst (extractAllComments w) = comment_records (page w)"
  by (simp add: extractAllComments_def DOMUtils_querySelector_def document_querySelector_def
        comment_records_def Let_def extractAllComments_loop_fst split: option.splits)

lemma extractAllComments_frame [simp]:
  "page (snd (extractAllComments w)) = page w"
  "downloads (snd (extractAllComments w)) = downloads w"
  by (simp_all add: extractAllComments_def DOMUtils_querySelector_def document_querySelector_def
        Let_def extractAllComments_loop_frame Logger_defs split: option.splits)

lemma extractPostData_fst [simp]: "fst (extractPostData (Some pe) w) = Some (post_record pe)"
  by (simp add: extractPostData_def post_record_def Let_def case_prod_beta split: option.splits)

lemma extractPostData_frame [simp]:
  "page (snd (extractPostData p w)) = page w"
  "downloads (snd (extractPostData p w)) = downloads w"
  by (simp_all add: extractPostData_def Let_def case_prod_beta Logger_defs
        DOMUtils_logElementAttributes_def split: option.splits)

lemma scrapeThread_page: "page (snd (scrapeThread w)) = page w"
  by (simp add: scrapeThread_def DOMUtils_querySelector_def document_querySelector_def
        Let_def case_prod_beta Logger_defs split: option.splits sum.splits)

lemma scrapeThread_downloads: "downloads (snd (scrapeThread w)) = downloads w @ run_output (page w)"
  by (simp add: scrapeThread_def DOMUtils_querySelector_def document_querySelector_def
        run_output_def thread_markdown_def
        Let_def case_prod_beta Logger_defs split: option.splits sum.splits)

lemma scrapeThread_result:
  "fst (scrapeThread w) =
     (case shreddit_post (page w) of
        None \<Rightarrow> None
      | Some pe \<Rightarrow>
          (case thread_markdown (post_record pe) (comment_records (page w)) of
             Inl e \<Rightarrow> Some e | Inr md \<Rightarrow> None))"
  by (simp add: scrapeThread_def DOMUtils_querySelector_def document_querySelector_def
        thread_markdown_def
        Let_def case_prod_beta Logger_defs split: option.splits sum.splits)

lemma length_concat_replicate: "length (concat (replicate n s)) = n * length s"
  by (induction n) simp_all

lemma concat_replicate_two_spaces: "concat (replicate n ''  '') = replicate (2 * n) (CHR '' '')"
  by (induction n) simp_all

section \<open>The script without modules and the console\<close>

lemma processComment_fst [simp]: "fst (processComment c w) = inline_comment_text c"
  by (simp add: processComment_def inline_comment_text_def comment_record_def formatComment_def
        Let_def split: option.splits sum.splits)

lemma processComment_frame [simp]:
  "page (snd (processComment c w)) = page w"
  "downloads (snd (processComment c w)) = downloads w"
  by (simp_all add: processComment_def Let_def Logger_defs split: option.splits sum.splits)

lemma processComments_loop_step:
  assumes "processComment c (Logger_log (''  - Processing comment '' @ string_of_nat (i + 1) @ '' of ''
                           @ string_of_nat n @ ''...'') w) = (r, w2)"
  shows "processComments_loop (c # cs) i n md w =
           (case r of Inl e \<Rightarrow> (Inl e, w2) | Inr s \<Rightarrow> processComments_loop cs (i + 1) n (md @ s) w2)"
  using assms by (simp add: Let_def)

lemma processComments_loop_fst:
  "fst (processComments_loop cs i n md w) = inline_comments_text md cs"
proof (induction cs arbitrary: i md w)
  case Nil
  then show ?case by simp
next
  case (Cons c cs)
  define w1 where "w1 = Logger_log (''  - Processing comment '' @ string_of_nat (i + 1) @ '' of ''
                           @ string_of_nat n @ ''...'') w"
  obtain r w2 where pc: "processComment c w1 = (r, w2)"
    by (cases "processComment c w1")
  have r: "inline_comment_text c = r"
    using processComment_fst [of c w1] by (simp add: pc)
  note step = processComments_loop_step [OF pc [unfolded w1_def], of cs md]
  show ?case
    unfolding step using r Cons.IH by (cases r) simp_all
qed

lemma processComments_loop_frame:
  "page (snd (processComments_loop cs i n md w)) = page w \<and>
   downloads (snd (processComments_loop cs i n md w)) = downloads w"
proof (induction cs arbitrary: i md w)
  case Nil
  then show ?case by simp
next
  case (Cons c cs)
  define w1 where "w1 = Logger_log (''  - Processing comment '' @ string_of_nat (i + 1) @ '' of ''
                           @ string_of_nat n @ ''...'') w"
  have w1: "page w1 = page w" "downloads w1 = downloads w"
    by (simp_all add: w1_def Logger_defs)
  obtain r w2 where pc: "processComment c w1 = (r, w2)"
    by (cases "processComment c w1")
  have w2: "page w2 = page w" "downloads w2 = downloads w"
    using processComment_frame [of c w1] w1 by (simp_all add: pc)
  note step = processComments_loop_step [OF pc [unfolded w1_def], of cs md]
  show ?case
    unfolding step using w2 Cons.IH by (cases r) simp_all
qed

lemma scrapeThread_inline_post_fst [simp]:
  "fst (scrapeThread_inline_post pe w) =
     formatPostHeader (post_record pe)
     @ (case pe_body pe of None \<Rightarrow> [] | Some innerText \<Rightarrow> trim innerText @ ''\<newline>\<newline>'')"
  by (simp add: scrapeThread_inline_post_def Let_def case_prod_beta post_record_def
        formatPostHeader_def split: option.splits)

lemma scrapeThread_inline_post_frame [simp]:
  "page (snd (scrapeThread_inline_post pe w)) = page w"
  "downloads (snd (scrapeThread_inline_post pe w)) = downloads w"
  by (simp_all add: scrapeThread_inline_post_def Let_def case_prod_beta Logger_defs
        split: option.splits)

lemma scrapeThread_inline_comments_fst [simp]:
  "fst (scrapeThread_inline_comments md w) =
     (case shreddit_comment_tree (page w) of
        None \<Rightarrow> Inr md
      | Some comments \<Rightarrow> inline_comments_text md comments)"
proof (cases "shreddit_comment_tree (page w)")
  case None
  then show ?thesis
    by (simp add: scrapeThread_inline_comments_def document_querySelector_def Let_def Logger_defs)
next
  case (Some cs)
  define w1 where "w1 = Logger_log (''  - Found '' @ string_of_nat (length cs)
                                  @ '' comment elements to process.'')
                          (Logger_log ''Step 2: Scraping comments...'' w)"
  obtain r w2 where lp: "processComments_loop cs 0 (length cs) md w1 = (r, w2)"
    by (cases "processComments_loop cs 0 (length cs) md w1")
  have "inline_comments_text md cs = r"
    using processComments_loop_fst [of cs 0 "length cs" md w1] by (simp add: lp)
  then show ?thesis
    using Some lp
    by (cases r)
       (simp_all add: scrapeThread_inline_comments_def document_querySelector_def Let_def
          Logger_defs w1_def)
qed

lemma scrapeThread_inline_comments_frame [simp]:
  "page (snd (scrapeThread_inline_comments md w)) = page w"
  "downloads (snd (scrapeThread_inline_comments md w)) = downloads w"
proof -
  have "page (snd (scrapeThread_inline_comments md w)) = page w
        \<and> downloads (snd (scrapeThread_inline_comments md w)) = downloads w"
  proof (cases "shreddit_comment_tree (page w)")
    case None
    then show ?thesis
      by (simp add: scrapeThread_inline_comments_def document_querySelector_def Let_def Logger_defs)
  next
    case (Some cs)
    define w1 where "w1 = Logger_log (''  - Found '' @ string_of_nat (length cs)
                                  @ '' comment elements to process.'')
                          (Logger_log ''Step 2: Scraping comments...'' w)"
    have w1: "page w1 = page w" "downloads w1 = downloads w"
      by (simp_all add: w1_def Logger_defs)
    obtain r w2 where lp: "processComments_loop cs 0 (length cs) md w1 = (r, w2)"
      by (cases "processComments_loop cs 0 (length cs) md w1")
    have "page w2 = page w1 \<and> downloads w2 = downloads w1"
      using processComments_loop_frame [of cs 0 "length cs" md w1] by (simp add: lp)
    then have "page w2 = page w" "downloads w2 = downloads w"
      using w1 by simp_all
    then show ?thesis
      using Some lp
      by (cases r)
         (simp_all add: scrapeThread_inline_comments_def document_querySelector_def Let_def
            Logger_defs w1_def)
  qed
  then show "page (snd (scrapeThread_inline_comments md w)) = page w"
    and "downloads (snd (scrapeThread_inline_comments md w)) = downloads w"
    by simp_all
qed

lemma scrapeThread_inline_download_frame [simp]:
  "page (scrapeThread_inline_download md w) = page w"
  "downloads (scrapeThread_inline_download md w) =
     downloads w @ [(generateFilename (doc_title (page w)), md)]"
  by (simp_all add: scrapeThread_inline_download_def Let_def Logger_defs)

lemma scrapeThread_inline_downloads:
  "downloads (snd (scrapeThread_inline w)) = downloads w @ run_output_inline (page w)"
  by (simp add: scrapeThread_inline_def document_querySelector_def Let_def case_prod_beta
        run_output_inline_def inline_markdown_def Logger_defs split: option.splits sum.splits)


lemma scrapeThread_inline_page: "page (snd (scrapeThread_inline w)) = page w"
  by (simp add: scrapeThread_inline_def document_querySelector_def Let_def case_prod_beta
        Logger_defs split: option.splits sum.splits)

lemma formatComment_nonneg:
  "0 \<le> c_depth r \<Longrightarrow>
   formatComment r =
     Inr (concat (replicate (nat (c_depth r * 2)) ''  '') @ ''- **u/'' @ c_author r @ ''** (*''
            @ ToString (attr_val (c_score r)) @ '' points*):\<newline>''
          @ concat (replicate (nat (c_depth r * 2)) ''  '') @ ''  > ''
            @ replace_newlines (c_content r)
                (''\<newline>'' @ concat (replicate (nat (c_depth r * 2)) ''  '') @ ''  > '')
            @ ''\<newline>\<newline>'')"
  by (simp add: formatComment_def js_repeat_def)



text \<open>
  In the script without modules \<open>processComment\<close> computes the indentation before it looks
  at author and content: for an element without author and with a negative depth the
  exception comes first.
\<close>

lemma processComment_skip_negative_depth:
  "getAttribute (ce_attributes anonymous_negative_comment) ''author'' = None
   \<and> fst (processComment anonymous_negative_comment w) = Inl RangeError"
  by (simp add: inline_comment_text_def anonymous_negative_comment_def getAttribute_def
        attr_val_def is_whitespace_def parseInt10_def num_or_zero_def is_digit_def
        nat_of_digits_def digit_value_def js_repeat_def)

section \<open>The depth attribute and nested comments\<close>

lemma parseInt10_digits:
  "parseInt10 a =
     (if depth_digits a = [] then None
      else Some (if minus_signed a then - int (nat_of_digits (depth_digits a))
                 else int (nat_of_digits (depth_digits a))))"
proof (cases a)
  case None
  then show ?thesis
    by (simp add: parseInt10_def depth_digits_def minus_signed_def attr_val_def Let_def
          is_whitespace_def is_digit_def)
next
  case (Some s)
  then show ?thesis
    by (cases "dropWhile is_whitespace s")
       (simp_all add: parseInt10_def depth_digits_def minus_signed_def attr_val_def Let_def)
qed

lemma nat_of_digits_Nil: "nat_of_digits [] = 0"
  by (simp add: nat_of_digits_def)

lemma foldl_digits_bound:
  assumes "\<forall>c\<in>set ds. is_digit c"
  shows "foldl (\<lambda>acc c. 10 * acc + digit_value c) acc ds < (acc + 1) * 10 ^ length ds"
  using assms
proof (induction ds arbitrary: acc)
  case Nil
  then show ?case by simp
next
  case (Cons d ds)
  from Cons.prems have d: "digit_value d \<le> 9"
    by (auto simp add: is_digit_def digit_value_def)
  have "foldl (\<lambda>acc c. 10 * acc + digit_value c) (10 * acc + digit_value d) ds
          < (10 * acc + digit_value d + 1) * 10 ^ length ds"
    using Cons by simp
  also have "\<dots> \<le> (10 * acc + 10) * 10 ^ length ds"
    by (rule mult_le_mono1) (use d in simp)
  also have "\<dots> = (acc + 1) * 10 ^ length (d # ds)"
    by (simp add: algebra_simps)
  finally show ?case by simp
qed

lemma depth_digits_are_digits: "\<forall>c\<in>set (depth_digits a). is_digit c"
  by (auto simp add: depth_digits_def Let_def dest: set_takeWhileD)

lemma short_digits_exact:
  assumes "length (depth_digits a) \<le> 15"
  shows "int (nat_of_digits (depth_digits a)) < 2 ^ 53"
proof -
  have "nat_of_digits (depth_digits a) < 10 ^ length (depth_digits a)"
    using foldl_digits_bound [OF depth_digits_are_digits, of 0 a]
    by (simp add: nat_of_digits_def)
  also have "\<dots> \<le> (10::nat) ^ 15"
    by (rule power_increasing) (use assms in simp_all)
  also have "\<dots> < 2 ^ 53"
    by simp
  finally have "nat_of_digits (depth_digits a) < 2 ^ 53" .
  then show ?thesis
    by (metis of_nat_less_iff of_nat_numeral of_nat_power)
qed



section \<open>The file name\<close>

lemma strip_no_marker: "\<not> has_marker t \<Longrightarrow> strip_subreddit t = t"
  by (induction t) simp_all

lemma has_marker_append: "has_marker (p @ subreddit_marker @ r)"
proof (induction p)
  case Nil
  then show ?case by (cases "subreddit_marker @ r") (simp_all add: subreddit_marker_def)
next
  case (Cons a p)
  then show ?case by simp
qed

lemma no_overlap:
  assumes "prefix subreddit_marker (c # p @ subreddit_marker @ n)"
  shows "prefix subreddit_marker (c # p)"
proof (cases p)
  case Nil
  then show ?thesis using assms by (auto simp add: subreddit_marker_def)
next
  case (Cons a p1)
  show ?thesis
  proof (cases p1)
    case Nil
    then show ?thesis using assms Cons by (auto simp add: subreddit_marker_def)
  next
    case (Cons b p2)
    note p1 = this
    show ?thesis
    proof (cases p2)
      case Nil
      then show ?thesis using assms \<open>p = a # p1\<close> p1 by (auto simp add: subreddit_marker_def)
    next
      case (Cons d p3)
      note p2 = this
      show ?thesis
      proof (cases p3)
        case Nil
        then show ?thesis using assms \<open>p = a # p1\<close> p1 p2 by (auto simp add: subreddit_marker_def)
      next
        case (Cons e p4)
        then show ?thesis using assms \<open>p = a # p1\<close> p1 p2 by (auto simp add: subreddit_marker_def)
      qed
    qed
  qed
qed

lemma strip_at_marker:
  "strip_subreddit (subreddit_marker @ r) = dropWhile (\<lambda>x. \<not> is_line_terminator x) r"
  by (cases "subreddit_marker @ r") (simp_all add: subreddit_marker_def)

lemma strip_first_marker:
  assumes "\<not> has_marker p" "\<forall>c\<in>set n. \<not> is_line_terminator c"
  shows "strip_subreddit (p @ subreddit_marker @ n) = p"
  using assms
proof (induction p)
  case Nil
  then show ?case by (simp add: strip_at_marker)
next
  case (Cons c p)
  then have "\<not> prefix subreddit_marker (c # p @ subreddit_marker @ n)"
    using no_overlap [of c p n] by auto
  then show ?case using Cons by simp
qed

lemma strip_marked:
  "has_marker t \<Longrightarrow>
   \<exists>p r. t = p @ subreddit_marker @ r \<and> \<not> has_marker p
         \<and> strip_subreddit t = p @ dropWhile (\<lambda>x. \<not> is_line_terminator x) r"
proof (induction t)
  case Nil
  then show ?case by simp
next
  case (Cons c cs)
  show ?case
  proof (cases "prefix subreddit_marker (c # cs)")
    case True
    then obtain r where r: "c # cs = subreddit_marker @ r"
      by (auto simp add: prefix_def)
    have "strip_subreddit (c # cs) = dropWhile (\<lambda>x. \<not> is_line_terminator x) r"
      unfolding r by (rule strip_at_marker)
    then have "c # cs = [] @ subreddit_marker @ r \<and> \<not> has_marker []
         \<and> strip_subreddit (c # cs) = [] @ dropWhile (\<lambda>x. \<not> is_line_terminator x) r"
      using r by simp
    then show ?thesis by blast
  next
    case False
    then have "has_marker cs" using Cons.prems by simp
    then obtain p r where pr: "cs = p @ subreddit_marker @ r" "\<not> has_marker p"
         "strip_subreddit cs = p @ dropWhile (\<lambda>x. \<not> is_line_terminator x) r"
      using Cons.IH by blast
    have "\<not> prefix subreddit_marker (c # p)"
    proof
      assume "prefix subreddit_marker (c # p)"
      then have "prefix subreddit_marker ((c # p) @ subreddit_marker @ r)"
        using prefix_prefix by blast
      then show False using False pr(1) by simp
    qed
    then have "c # cs = (c # p) @ subreddit_marker @ r \<and> \<not> has_marker (c # p)
         \<and> strip_subreddit (c # cs) = (c # p) @ dropWhile (\<lambda>x. \<not> is_line_terminator x) r"
      using pr False by simp
    then show ?thesis by blast
  qed
qed

lemma name_char_not_terminator: "subreddit_name_char c \<Longrightarrow> \<not> is_line_terminator c"
  by (auto simp add: subreddit_name_char_def is_alnum_def is_digit_def is_line_terminator_def)

lemma spec_strip_suffix:
  assumes "n \<noteq> []" "\<forall>c\<in>set n. subreddit_name_char c"
  shows "strip_trailing_subreddit (p @ subreddit_marker @ n) = p"
proof -
  have "takeWhile subreddit_name_char (rev subreddit_marker @ rev p) = []"
    by (simp add: subreddit_marker_def subreddit_name_char_def is_alnum_def is_digit_def)
  moreover have "takeWhile subreddit_name_char (rev n @ rev subreddit_marker @ rev p) =
          rev n @ takeWhile subreddit_name_char (rev subreddit_marker @ rev p)"
    by (rule takeWhile_append2) (use assms(2) in auto)
  ultimately have "rev (takeWhile subreddit_name_char (rev (p @ subreddit_marker @ n))) = n"
    by simp
  then show ?thesis
    using assms(1) by (simp add: strip_trailing_subreddit_def Let_def suffix_def)
qed

lemma spec_strip_no_marker:
  assumes "\<not> has_marker t"
  shows "strip_trailing_subreddit t = t"
proof (rule ccontr)
  assume ne: "strip_trailing_subreddit t \<noteq> t"
  define name where "name = rev (takeWhile subreddit_name_char (rev t))"
  define front where "front = take (length t - length name) t"
  have "suffix subreddit_marker front"
    using ne by (auto simp add: strip_trailing_subreddit_def Let_def name_def front_def split: if_splits)
  then obtain u where "front = u @ subreddit_marker"
    by (auto simp add: suffix_def)
  moreover have "t = front @ drop (length t - length name) t"
    by (simp add: front_def)
  ultimately have "t = u @ subreddit_marker @ drop (length t - length name) t"
    by simp
  then have "has_marker t"
    using has_marker_append [of u "drop (length t - length name) t"] by simp
  then show False using assms by simp
qed

lemma stem_chars: "lower_alnum_or_underscore (lower_char (sanitize_char c))"
  by (auto simp add: lower_alnum_or_underscore_def lower_char_def sanitize_char_def is_alnum_def
        is_digit_def)

section \<open>Claims about the renderer\<close>

text \<open>
  C4. For every comment record (its depth a non-negative integer, as the data model has
  it), the indentation prefix that \<open>formatComment\<close> puts before the bullet is the
  two-character unit repeated \<open>depth * 2\<close> times, so it has exactly \<open>depth * 4\<close>
  characters, all of them spaces; the same prefix starts the quoted line. (For a negative
  depth \<open>formatComment\<close> emits nothing; see C9.)
\<close>

theorem C4_indent_length:
  assumes "0 \<le> c_depth cd"
  shows "\<exists>indent.
           js_repeat ''  '' (c_depth cd * 2) = Inr indent
           \<and> indent = concat (replicate (nat (c_depth cd * 2)) ''  '')
           \<and> length indent = nat (c_depth cd) * 4
           \<and> set indent \<subseteq> {CHR '' ''}
           \<and> formatComment cd =
               Inr (indent @ ''- **u/'' @ c_author cd @ ''** (*'' @ ToString (attr_val (c_score cd))
                      @ '' points*):\<newline>''
                    @ indent @ ''  > ''
                      @ replace_newlines (c_content cd) (''\<newline>'' @ indent @ ''  > '')
                      @ ''\<newline>\<newline>'')"
proof -
  have "nat (c_depth cd * 2) * 2 = nat (c_depth cd) * 4"
    using assms by (simp add: nat_mult_distrib)
  then show ?thesis
    using assms
    by (auto simp add: js_repeat_def formatComment_def length_concat_replicate
          concat_replicate_two_spaces)
qed

theorem C4_indent_length_witness:
  "0 \<le> c_depth carol_reply
   \<and> formatComment carol_reply =
       Inr ''    - **u/carol** (*2 points*):\<newline>      > Re: hi\<newline>\<newline>''"
  using C4_indent_length [of carol_reply]
  by (auto simp add: carol_reply_def attr_val_def eval_nat_numeral)

text \<open>
  C5. Rendering the post record with title "Hello World", subreddit "test", author
  "alice", score "10" and an empty body, with no comments, gives exactly the expected
  text. For every post record and no comments, the body and its blank line are in the
  text only if the body is not empty. A run over a page whose post yields the record and
  whose comment tree is empty hands exactly this text to the sink.
\<close>

theorem C5_hello_world:
  "thread_markdown hello_post [] =
     Inr ''# Hello World\<newline>\<newline>**Subreddit:** r/test\<newline>**Author:** u/alice\<newline>**Score:** 10\<newline>\<newline>---\<newline>\<newline>## Comments\<newline>\<newline>''
   \<and> (p_content pd = [] \<longrightarrow>
        thread_markdown pd [] =
          Inr (formatPostHeader pd @ ''---\<newline>\<newline>## Comments\<newline>\<newline>''))
   \<and> (p_content pd \<noteq> [] \<longrightarrow>
        thread_markdown pd [] =
          Inr (formatPostHeader pd @ p_content pd @ ''\<newline>\<newline>''
               @ ''---\<newline>\<newline>## Comments\<newline>\<newline>''))
   \<and> (shreddit_post (page w) = Some pe \<and> shreddit_comment_tree (page w) = Some []
        \<and> fst (extractPostData (Some pe) w) = Some hello_post \<longrightarrow>
        fst (scrapeThread w) = None
        \<and> downloads (snd (scrapeThread w)) =
            downloads w @ [(generateFilename (doc_title (page w)),
              ''# Hello World\<newline>\<newline>**Subreddit:** r/test\<newline>**Author:** u/alice\<newline>**Score:** 10\<newline>\<newline>---\<newline>\<newline>## Comments\<newline>\<newline>'')])"
proof -
  have hello: "thread_markdown hello_post [] =
     Inr ''# Hello World\<newline>\<newline>**Subreddit:** r/test\<newline>**Author:** u/alice\<newline>**Score:** 10\<newline>\<newline>---\<newline>\<newline>## Comments\<newline>\<newline>''"
    by (simp add: thread_markdown_def hello_post_def formatPostHeader_def)
  have run: "fst (scrapeThread w) = None \<and> downloads (snd (scrapeThread w)) =
            downloads w @ [(generateFilename (doc_title (page w)),
              ''# Hello World\<newline>\<newline>**Subreddit:** r/test\<newline>**Author:** u/alice\<newline>**Score:** 10\<newline>\<newline>---\<newline>\<newline>## Comments\<newline>\<newline>'')]"
    if "shreddit_post (page w) = Some pe" "shreddit_comment_tree (page w) = Some []"
       "fst (extractPostData (Some pe) w) = Some hello_post"
  proof -
    have "post_record pe = hello_post" using that(3) by simp
    then show ?thesis
      using that(1,2) hello
      by (simp add: scrapeThread_downloads scrapeThread_result run_output_def comment_records_def)
  qed
  show ?thesis
    using hello run by (simp add: thread_markdown_def)
qed

theorem C5_hello_world_witness:
  "downloads (snd (scrapeThread (fresh_world hello_page))) =
     [(''hello_world.md'',
       ''# Hello World\<newline>\<newline>**Subreddit:** r/test\<newline>**Author:** u/alice\<newline>**Score:** 10\<newline>\<newline>---\<newline>\<newline>## Comments\<newline>\<newline>'')]"
proof -
  have "generateFilename ''Hello World : r/test'' = ''hello_world.md''"
    by code_simp
  moreover have "fst (extractPostData (Some hello_element) (fresh_world hello_page)) = Some hello_post"
    by (simp add: post_record_def hello_element_def hello_post_def js_or_def getAttribute_def
          attr_val_def)
  ultimately show ?thesis
    using C5_hello_world [of hello_post "fresh_world hello_page" hello_element]
    by (simp add: fresh_world_def hello_page_def)
qed

section \<open>Claims about extraction\<close>

text \<open>
  C10. In post extraction the string attribute is used whenever the typed property is
  falsy (\<^verbatim>\<open>undefined\<close>, \<^verbatim>\<open>null\<close>, the empty string or the number 0), not only when it
  is absent; a truthy property is used as it is. The number 0 and the empty string are
  falsy. The script without modules puts the same values in its header.
\<close>

theorem C10_fallback_on_falsy:
  assumes "fst (extractPostData (Some pe) w) = Some pd"
  shows "(\<not> truthy (pe_postTitle pe) \<longrightarrow>
            p_title pd = attr_val (getAttribute (pe_attributes pe) ''post-title''))
       \<and> (\<not> truthy (pe_author pe) \<longrightarrow>
            p_author pd = attr_val (getAttribute (pe_attributes pe) ''author''))
       \<and> (\<not> truthy (pe_subredditName pe) \<longrightarrow>
            p_subreddit pd = attr_val (getAttribute (pe_attributes pe) ''subreddit-name''))
       \<and> (\<not> truthy (pe_score pe) \<longrightarrow>
            p_score pd = attr_val (getAttribute (pe_attributes pe) ''score''))
       \<and> (truthy (pe_postTitle pe) \<longrightarrow> p_title pd = pe_postTitle pe)
       \<and> (truthy (pe_author pe) \<longrightarrow> p_author pd = pe_author pe)
       \<and> (truthy (pe_subredditName pe) \<longrightarrow> p_subreddit pd = pe_subredditName pe)
       \<and> (truthy (pe_score pe) \<longrightarrow> p_score pd = pe_score pe)
       \<and> \<not> truthy (JNum 0) \<and> \<not> truthy (JStr [])
       \<and> fst (scrapeThread_inline_post pe w) =
            formatPostHeader pd
            @ (case pe_body pe of None \<Rightarrow> [] | Some innerText \<Rightarrow> trim innerText @ ''\<newline>\<newline>'')"
proof -
  have "pd = post_record pe"
    using assms by simp
  then show ?thesis
    by (simp add: post_record_def js_or_def)
qed

theorem C10_fallback_on_falsy_witness:
  "fst (extractPostData (Some falsy_element) (fresh_world hello_page)) = Some falsy_record
   \<and> pe_score falsy_element = JNum 0 \<and> pe_postTitle falsy_element = JStr []
   \<and> p_score falsy_record = JStr ''42'' \<and> p_title falsy_record = JStr ''From attribute''
   \<and> p_score falsy_record = attr_val (getAttribute (pe_attributes falsy_element) ''score'')
   \<and> p_title falsy_record = attr_val (getAttribute (pe_attributes falsy_element) ''post-title'')"
proof -
  have h: "fst (extractPostData (Some falsy_element) (fresh_world hello_page)) = Some falsy_record"
    by (simp add: post_record_def falsy_element_def falsy_record_def js_or_def getAttribute_def
          attr_val_def)
  have "\<not> truthy (pe_score falsy_element)" "\<not> truthy (pe_postTitle falsy_element)"
    by (simp_all add: falsy_element_def)
  then show ?thesis
    using h C10_fallback_on_falsy [OF h]
    by (simp add: falsy_element_def falsy_record_def)
qed

text \<open>
  C2 (as stated: the score defaults to 0 when the attribute is absent or not a number).
  The script does not parse the score. For a comment without a score attribute the field
  is \<^verbatim>\<open>null\<close> and the bullet line reads "null points"; a score attribute "many" is
  kept and rendered as it is. Both scripts render the same line.
\<close>

theorem C2_score_not_defaulted:
  "fst (extractCommentData unscored_comment (fresh_world hello_page)) = Some unscored_record
   \<and> c_score unscored_record = None
   \<and> formatComment unscored_record = Inr ''- **u/bob** (*null points*):\<newline>  > Hi\<newline>\<newline>''
   \<and> fst (processComment unscored_comment (fresh_world hello_page)) =
       Inr ''- **u/bob** (*null points*):\<newline>  > Hi\<newline>\<newline>''
   \<and> fst (extractCommentData worded_score_comment (fresh_world hello_page)) = Some worded_score_record
   \<and> formatComment worded_score_record = Inr ''- **u/bob** (*many points*):\<newline>  > Hi\<newline>\<newline>''"
  by (simp add: comment_record_def inline_comment_text_def unscored_comment_def unscored_record_def
        worded_score_comment_def worded_score_record_def getAttribute_def attr_val_def
        trim_def is_whitespace_def parseInt10_def num_or_zero_def is_digit_def nat_of_digits_def
        digit_value_def formatComment_def js_repeat_def)

text \<open>
  C2 (amended). The extracted score is the score attribute as a string, unchanged, or
  \<^verbatim>\<open>null\<close> when the attribute is absent. Whether a comment is extracted does not depend
  on its score, so a missing or non-numeric score is never a failure. In a record of
  non-negative depth the bullet line shows the attribute text, or "null" when absent.
\<close>

theorem C2_score_verbatim:
  "((fst (extractCommentData c w) = None) =
      (\<not> truthy (attr_val (getAttribute (ce_attributes c) ''author'')) \<or> ce_content c = None))
   \<and> (fst (extractCommentData c w) = Some r \<longrightarrow>
         c_score r = getAttribute (ce_attributes c) ''score''
         \<and> (0 \<le> c_depth r \<longrightarrow>
              (\<exists>indent rest.
                 formatComment r =
                   Inr (indent @ ''- **u/'' @ c_author r @ ''** (*''
                        @ (case getAttribute (ce_attributes c) ''score'' of
                             None \<Rightarrow> ''null'' | Some s \<Rightarrow> s)
                        @ '' points*):\<newline>'' @ rest))))"
proof -
  have a: "(fst (extractCommentData c w) = None) =
      (\<not> truthy (attr_val (getAttribute (ce_attributes c) ''author'')) \<or> ce_content c = None)"
    by (simp add: comment_record_def split: option.splits)
  have b: "c_score r = getAttribute (ce_attributes c) ''score''"
    if "fst (extractCommentData c w) = Some r"
    using that by (auto simp add: comment_record_def split: option.splits if_splits)
  have c: "\<exists>indent rest.
                 formatComment r =
                   Inr (indent @ ''- **u/'' @ c_author r @ ''** (*''
                        @ (case getAttribute (ce_attributes c) ''score'' of
                             None \<Rightarrow> ''null'' | Some s \<Rightarrow> s)
                        @ '' points*):\<newline>'' @ rest)"
    if "fst (extractCommentData c w) = Some r" "0 \<le> c_depth r"
  proof -
    have "ToString (attr_val (c_score r)) =
            (case getAttribute (ce_attributes c) ''score'' of None \<Rightarrow> ''null'' | Some s \<Rightarrow> s)"
      using b [OF that(1)] by (simp add: attr_val_def split: option.splits)
    then show ?thesis
      using formatComment_nonneg [OF that(2)] by (metis append.assoc)
  qed
  show ?thesis
    using a b c by blast
qed

theorem C2_score_verbatim_witness:
  "fst (extractCommentData unscored_comment (fresh_world hello_page)) = Some unscored_record
   \<and> 0 \<le> c_depth unscored_record
   \<and> c_score unscored_record = getAttribute (ce_attributes unscored_comment) ''score''
   \<and> getAttribute (ce_attributes unscored_comment) ''score'' = None"
proof -
  have h: "fst (extractCommentData unscored_comment (fresh_world hello_page)) = Some unscored_record"
    by (simp add: comment_record_def unscored_comment_def unscored_record_def getAttribute_def
          attr_val_def trim_def is_whitespace_def parseInt10_def num_or_zero_def is_digit_def
          nat_of_digits_def digit_value_def)
  show ?thesis
    using h C2_score_verbatim [of unscored_comment "fresh_world hello_page" unscored_record]
    by (simp add: unscored_record_def unscored_comment_def getAttribute_def)
qed

section \<open>Claims about a whole run\<close>




text \<open>
  C8. The rendering functions take the records as their only input and have no effect;
  the text handed to the sink is their result on the extracted records.
  A run reads the clock for its log lines and asks the host for an object URL, but the
  exception it may end with and the document it hands to the sink depend on the page
  alone: two runs on the same page, in any two states of clock, console and sink, hand
  over the same file name and text, and so does a second run after the first.
\<close>

theorem C8_output_depends_on_page_only:
  assumes "page w = page w'"
  shows "fst (scrapeThread w) = fst (scrapeThread w')
       \<and> page (snd (scrapeThread w)) = page w
       \<and> (\<exists>out. downloads (snd (scrapeThread w)) = downloads w @ out
                \<and> downloads (snd (scrapeThread w')) = downloads w' @ out
                \<and> downloads (snd (scrapeThread (snd (scrapeThread w)))) = downloads w @ out @ out)
       \<and> (shreddit_post (page w) = Some pe \<and> fst (extractPostData (Some pe) w) = Some pd
            \<and> thread_markdown pd (fst (extractAllComments w)) = Inr md \<longrightarrow>
            downloads (snd (scrapeThread w)) =
              downloads w @ [(generateFilename (doc_title (page w)), md)])"
proof -
  have a: "fst (scrapeThread w) = fst (scrapeThread w')
       \<and> page (snd (scrapeThread w)) = page w
       \<and> (\<exists>out. downloads (snd (scrapeThread w)) = downloads w @ out
                \<and> downloads (snd (scrapeThread w')) = downloads w' @ out
                \<and> downloads (snd (scrapeThread (snd (scrapeThread w)))) = downloads w @ out @ out)"
    unfolding scrapeThread_result scrapeThread_downloads scrapeThread_page assms
    by simp
  have b: "downloads (snd (scrapeThread w)) =
              downloads w @ [(generateFilename (doc_title (page w)), md)]"
    if "shreddit_post (page w) = Some pe" "fst (extractPostData (Some pe) w) = Some pd"
       "thread_markdown pd (fst (extractAllComments w)) = Inr md"
  proof -
    have "pd = post_record pe" using that(2) by simp
    then show ?thesis
      using that(1,3) by (simp add: scrapeThread_downloads run_output_def)
  qed
  show ?thesis
    using a b by blast
qed

theorem C8_output_depends_on_page_only_witness:
  "page (fresh_world (thread_page [bob_comment, carol_comment])) =
     page (later_world (thread_page [bob_comment, carol_comment]))
   \<and> clock (fresh_world (thread_page [bob_comment, carol_comment])) 0 \<noteq>
       clock (later_world (thread_page [bob_comment, carol_comment])) 0
   \<and> downloads (snd (scrapeThread (fresh_world (thread_page [bob_comment, carol_comment])))) =
       downloads (snd (scrapeThread (later_world (thread_page [bob_comment, carol_comment]))))"
proof -
  have p: "page (fresh_world (thread_page [bob_comment, carol_comment])) =
     page (later_world (thread_page [bob_comment, carol_comment]))"
    by (simp add: fresh_world_def later_world_def)
  have d: "downloads (fresh_world (thread_page [bob_comment, carol_comment])) = []"
          "downloads (later_world (thread_page [bob_comment, carol_comment])) = []"
    by (simp_all add: fresh_world_def later_world_def)
  have c: "clock (fresh_world (thread_page [bob_comment, carol_comment])) 0 \<noteq>
       clock (later_world (thread_page [bob_comment, carol_comment])) 0"
    by (simp add: fresh_world_def later_world_def noon_def midnight_def)
  show ?thesis
    using C8_output_depends_on_page_only [OF p] p c d by auto
qed

text \<open>
  C9 (as stated: the extracted depth is never negative, so the indentation is always
  defined). A depth attribute "-1" is parsed to the number -1, which is truthy and is
  kept; \<^verbatim>\<open>"  ".repeat(-2)\<close> then throws a RangeError, the run ends with this exception
  and nothing is handed to the sink.
\<close>

theorem C9_negative_depth:
  "fst (extractCommentData negative_depth_comment (fresh_world negative_depth_page)) =
     Some negative_depth_record
   \<and> c_depth negative_depth_record = - 1
   \<and> formatComment negative_depth_record = Inl RangeError
   \<and> fst (scrapeThread (fresh_world negative_depth_page)) = Some RangeError
   \<and> downloads (snd (scrapeThread (fresh_world negative_depth_page))) = []"
proof -
  have a: "comment_record negative_depth_comment = Some negative_depth_record"
    by (simp add: comment_record_def negative_depth_comment_def negative_depth_record_def
          getAttribute_def attr_val_def trim_def is_whitespace_def parseInt10_def num_or_zero_def
          is_digit_def nat_of_digits_def digit_value_def)
  have b: "formatComment negative_depth_record = Inl RangeError"
    by (simp add: formatComment_def negative_depth_record_def js_repeat_def)
  have c: "thread_markdown (post_record hello_element) [negative_depth_record] = Inl RangeError"
    by (simp add: thread_markdown_def b)
  show ?thesis
    using a b c
    by (simp add: scrapeThread_result scrapeThread_downloads run_output_def comment_records_def
          fresh_world_def negative_depth_page_def negative_depth_record_def)
qed

text \<open>
  C9 (amended). The extracted depth is 0 when the depth attribute is absent or holds no
  decimal number (no digit after leading white space and one optional sign). When the
  attribute holds a number of at most 15 digits, the depth is that number as an exact
  integer, negated when it is written with a minus sign: without a minus sign it is not
  negative, and neither is the repeat count \<open>depth * 2\<close>; for a negative depth the repeat
  throws a RangeError and so does \<open>formatComment\<close>.
\<close>

theorem C9_depth_default:
  assumes "fst (extractCommentData c w) = Some r"
  shows "(getAttribute (ce_attributes c) ''depth'' = None \<longrightarrow> c_depth r = 0)
       \<and> (depth_digits (getAttribute (ce_attributes c) ''depth'') = [] \<longrightarrow> c_depth r = 0)
       \<and> (length (depth_digits (getAttribute (ce_attributes c) ''depth'')) \<le> 15 \<longrightarrow>
            \<bar>c_depth r\<bar> < 2 ^ 53
            \<and> (\<not> minus_signed (getAttribute (ce_attributes c) ''depth'') \<longrightarrow>
                 c_depth r = int (nat_of_digits (depth_digits (getAttribute (ce_attributes c) ''depth'')))
                 \<and> 0 \<le> c_depth r \<and> 0 \<le> c_depth r * 2)
            \<and> (minus_signed (getAttribute (ce_attributes c) ''depth'') \<longrightarrow>
                 c_depth r = - int (nat_of_digits (depth_digits (getAttribute (ce_attributes c) ''depth'')))
                 \<and> c_depth r \<le> 0)
            \<and> (c_depth r < 0 \<longrightarrow>
                 js_repeat ''  '' (c_depth r * 2) = Inl RangeError
                 \<and> formatComment r = Inl RangeError))"
proof -
  define a where "a = getAttribute (ce_attributes c) ''depth''"
  have d: "c_depth r = num_or_zero (parseInt10 a)"
    using assms by (auto simp add: a_def comment_record_def split: option.splits if_splits)
  have absent: "depth_digits None = []"
    by (simp add: depth_digits_def attr_val_def Let_def is_whitespace_def is_digit_def)
  have zero: "c_depth r = 0" if "depth_digits a = []"
    using that d by (simp add: parseInt10_digits num_or_zero_def)
  have pos: "c_depth r = int (nat_of_digits (depth_digits a))" if "\<not> minus_signed a"
    using that d by (simp add: parseInt10_digits num_or_zero_def nat_of_digits_Nil)
  have neg: "c_depth r = - int (nat_of_digits (depth_digits a))" if "minus_signed a"
    using that d by (simp add: parseInt10_digits num_or_zero_def nat_of_digits_Nil)
  have small: "\<bar>c_depth r\<bar> < 2 ^ 53" if "length (depth_digits a) \<le> 15"
    using short_digits_exact [OF that] pos neg by (cases "minus_signed a") simp_all
  have thrown: "js_repeat ''  '' (c_depth r * 2) = Inl RangeError \<and> formatComment r = Inl RangeError"
    if "c_depth r < 0"
    using that by (simp add: formatComment_def js_repeat_def)
  show ?thesis
    unfolding a_def [symmetric]
    using absent zero pos neg small thrown by auto
qed

theorem C9_depth_default_witness:
  "fst (extractCommentData plain_comment (fresh_world hello_page)) =
     Some \<lparr>c_author = ''dave'', c_score = None, c_content = ''ok'', c_depth = 0\<rparr>
   \<and> getAttribute (ce_attributes plain_comment) ''depth'' = None
   \<and> fst (extractCommentData carol_comment (fresh_world hello_page)) = Some carol_reply
   \<and> depth_digits (getAttribute (ce_attributes carol_comment) ''depth'') = ''1''
   \<and> \<not> minus_signed (getAttribute (ce_attributes carol_comment) ''depth'')
   \<and> c_depth carol_reply = 1
   \<and> fst (extractCommentData negative_depth_comment (fresh_world hello_page)) =
       Some negative_depth_record
   \<and> depth_digits (getAttribute (ce_attributes negative_depth_comment) ''depth'') = ''1''
   \<and> minus_signed (getAttribute (ce_attributes negative_depth_comment) ''depth'')
   \<and> c_depth negative_depth_record = - 1
   \<and> formatComment negative_depth_record = Inl RangeError"
proof -
  have h1: "fst (extractCommentData plain_comment (fresh_world hello_page)) =
     Some \<lparr>c_author = ''dave'', c_score = None, c_content = ''ok'', c_depth = 0\<rparr>"
    by (simp add: comment_record_def plain_comment_def getAttribute_def attr_val_def trim_def
          is_whitespace_def parseInt10_def num_or_zero_def is_digit_def)
  have a1: "getAttribute (ce_attributes plain_comment) ''depth'' = None"
    by (simp add: plain_comment_def getAttribute_def)
  have h2: "fst (extractCommentData carol_comment (fresh_world hello_page)) = Some carol_reply"
    by (simp add: comment_record_def carol_comment_def carol_reply_def getAttribute_def
          attr_val_def trim_def is_whitespace_def parseInt10_def num_or_zero_def is_digit_def
          nat_of_digits_def digit_value_def)
  have a2: "depth_digits (getAttribute (ce_attributes carol_comment) ''depth'') = ''1''"
           "\<not> minus_signed (getAttribute (ce_attributes carol_comment) ''depth'')"
    by (simp_all add: carol_comment_def getAttribute_def depth_digits_def minus_signed_def
          attr_val_def is_whitespace_def is_digit_def)
  have h3: "fst (extractCommentData negative_depth_comment (fresh_world hello_page)) =
       Some negative_depth_record"
    by (simp add: comment_record_def negative_depth_comment_def negative_depth_record_def
          getAttribute_def attr_val_def trim_def is_whitespace_def parseInt10_def num_or_zero_def
          is_digit_def nat_of_digits_def digit_value_def)
  have a3: "depth_digits (getAttribute (ce_attributes negative_depth_comment) ''depth'') = ''1''"
           "minus_signed (getAttribute (ce_attributes negative_depth_comment) ''depth'')"
    by (simp_all add: negative_depth_comment_def getAttribute_def depth_digits_def
          minus_signed_def attr_val_def is_whitespace_def is_digit_def)
  have n: "nat_of_digits ''1'' = 1"
    by (simp add: nat_of_digits_def digit_value_def)
  show ?thesis
    using h1 a1 h2 a2 h3 a3 n
          C9_depth_default [OF h1] C9_depth_default [OF h2] C9_depth_default [OF h3]
    by simp
qed

text \<open>
  C1 (as stated: without the comment container, extraction gives a hard-stop signal, the
  run aborts and the sink receives nothing). On a page with a post and no
  \<^verbatim>\<open>shreddit-comment-tree\<close> element, \<open>extractAllComments\<close> returns the empty sequence,
  the run returns normally and hands the sink a document with the post and the
  separator block. The script without modules hands over the same document.
\<close>

theorem C1_run_continues:
  "shreddit_comment_tree (page (fresh_world without_comment_tree)) = None
   \<and> fst (extractAllComments (fresh_world without_comment_tree)) = []
   \<and> fst (scrapeThread (fresh_world without_comment_tree)) = None
   \<and> downloads (snd (scrapeThread (fresh_world without_comment_tree))) =
       [(''hello_world.md'',
         ''# Hello World\<newline>\<newline>**Subreddit:** r/test\<newline>**Author:** u/alice\<newline>**Score:** 10\<newline>\<newline>---\<newline>\<newline>## Comments\<newline>\<newline>'')]
   \<and> downloads (snd (scrapeThread_inline (fresh_world without_comment_tree))) =
       [(''hello_world.md'',
         ''# Hello World\<newline>\<newline>**Subreddit:** r/test\<newline>**Author:** u/alice\<newline>**Score:** 10\<newline>\<newline>---\<newline>\<newline>## Comments\<newline>\<newline>'')]"
proof -
  have a: "run_output without_comment_tree =
       [(''hello_world.md'',
         ''# Hello World\<newline>\<newline>**Subreddit:** r/test\<newline>**Author:** u/alice\<newline>**Score:** 10\<newline>\<newline>---\<newline>\<newline>## Comments\<newline>\<newline>'')]"
    by code_simp
  have b: "run_output_inline without_comment_tree =
       [(''hello_world.md'',
         ''# Hello World\<newline>\<newline>**Subreddit:** r/test\<newline>**Author:** u/alice\<newline>**Score:** 10\<newline>\<newline>---\<newline>\<newline>## Comments\<newline>\<newline>'')]"
    by code_simp
  have c: "comment_records without_comment_tree = []"
    by (simp add: comment_records_def without_comment_tree_def)
  have p: "shreddit_post without_comment_tree = Some hello_element"
    by (simp add: without_comment_tree_def)
  have d: "fst (scrapeThread (fresh_world without_comment_tree)) = None"
    by (simp add: scrapeThread_result fresh_world_def c p thread_markdown_def)
  have e: "shreddit_comment_tree (page (fresh_world without_comment_tree)) = None"
    by (simp add: fresh_world_def without_comment_tree_def)
  show ?thesis
    using a b c d e
    by (simp add: scrapeThread_downloads scrapeThread_inline_downloads)
       (simp add: fresh_world_def)
qed

text \<open>
  C1 (amended). If the comment container element is absent, comment extraction logs an
  error ("Could not find comment tree ...") and returns the empty sequence; it has no
  failure value. When the post element is present, the run of \<open>scrapeThread\<close> then returns
  normally and hands the sink one document: the post header, the body if any, and the
  separator block, with no comment blocks.
\<close>

theorem C1_missing_comment_tree:
  assumes "shreddit_comment_tree (page w) = None"
  shows "fst (extractAllComments w) = []
       \<and> console (snd (extractAllComments w)) =
           console w @ [Entry ERROR (clock w (clock_reads w))
                          ''Could not find comment tree with selector: shreddit-comment-tree'']
       \<and> (shreddit_post (page w) = Some pe \<and> fst (extractPostData (Some pe) w) = Some pd \<longrightarrow>
            fst (scrapeThread w) = None
            \<and> downloads (snd (scrapeThread w)) =
                downloads w @
                [(generateFilename (doc_title (page w)),
                  formatPostHeader pd
                  @ (if p_content pd \<noteq> [] then p_content pd @ ''\<newline>\<newline>'' else [])
                  @ ''---\<newline>\<newline>## Comments\<newline>\<newline>'')])"
proof -
  have a: "fst (extractAllComments w) = []"
    using assms by (simp add: comment_records_def)
  have b: "console (snd (extractAllComments w)) =
           console w @ [Entry ERROR (clock w (clock_reads w))
                          ''Could not find comment tree with selector: shreddit-comment-tree'']"
    using assms
    by (simp add: extractAllComments_def DOMUtils_querySelector_def document_querySelector_def
          Logger_defs)
  have c: "fst (scrapeThread w) = None
            \<and> downloads (snd (scrapeThread w)) =
                downloads w @
                [(generateFilename (doc_title (page w)),
                  formatPostHeader pd
                  @ (if p_content pd \<noteq> [] then p_content pd @ ''\<newline>\<newline>'' else [])
                  @ ''---\<newline>\<newline>## Comments\<newline>\<newline>'')]"
    if "shreddit_post (page w) = Some pe" "fst (extractPostData (Some pe) w) = Some pd"
  proof -
    have "pd = post_record pe" using that(2) by simp
    then show ?thesis
      using that(1) assms
      by (simp add: scrapeThread_result scrapeThread_downloads run_output_def comment_records_def
            thread_markdown_def)
  qed
  show ?thesis
    using a b c by blast
qed

theorem C1_missing_comment_tree_witness:
  "shreddit_comment_tree (page (fresh_world without_comment_tree)) = None
   \<and> console (snd (extractAllComments (fresh_world without_comment_tree))) =
       [Entry ERROR ''12:00:00'' ''Could not find comment tree with selector: shreddit-comment-tree'']
   \<and> fst (extractAllComments (fresh_world without_comment_tree)) = []"
proof -
  have h: "shreddit_comment_tree (page (fresh_world without_comment_tree)) = None"
    by (simp add: fresh_world_def without_comment_tree_def)
  show ?thesis
    using h C1_missing_comment_tree [OF h]
    by (simp add: fresh_world_def noon_def)
qed

section \<open>Claims about the file name\<close>

text \<open>
  C6 (as stated: the file name is that of the reference definition, which strips a
  trailing " : r/<subreddit>" suffix). The pattern of the script is not anchored at the
  end: it deletes everything from the first " : r/" on. For the title
  "Ask : r/help or : r/test" the script gives "ask.md", the reference definition
  "ask___r_help_or.md".
\<close>

theorem C6_strip_not_anchored:
  "generateFilename ''Ask : r/help or : r/test'' = ''ask.md''
   \<and> deriveFilename ''Ask : r/help or : r/test'' = ''ask___r_help_or.md''
   \<and> generateFilename ''Ask : r/help or : r/test'' \<noteq> deriveFilename ''Ask : r/help or : r/test''"
  by code_simp

text \<open>
  C6 (amended). \<open>generateFilename\<close> is a total function of the page title. It deletes the
  text from the first " : r/" to the end of that line, replaces every character that is
  not an ASCII letter or digit by "_", lowercases the result and appends ".md"; the part
  before ".md" consists of lowercase letters, digits and "_". It is equal to the
  reference definition for every title without " : r/" and for every title that ends
  with " : r/<subreddit>" and has no " : r/" before that suffix. It gives "my_thread.md"
  for "My Thread : r/test" and ".md" for the empty title.
\<close>

theorem C6_generateFilename:
  "(\<not> has_marker t \<longrightarrow>
      generateFilename t = deriveFilename t
      \<and> generateFilename t = map lower_char (map sanitize_char t) @ ''.md'')
   \<and> (\<not> has_marker p \<and> n \<noteq> [] \<and> (\<forall>c\<in>set n. subreddit_name_char c) \<longrightarrow>
        generateFilename (p @ '' : r/'' @ n) = deriveFilename (p @ '' : r/'' @ n)
        \<and> generateFilename (p @ '' : r/'' @ n) = map lower_char (map sanitize_char p) @ ''.md'')
   \<and> (has_marker t \<longrightarrow>
        (\<exists>p r. t = p @ '' : r/'' @ r \<and> \<not> has_marker p
               \<and> generateFilename t =
                   map lower_char
                     (map sanitize_char (p @ dropWhile (\<lambda>x. \<not> is_line_terminator x) r))
                   @ ''.md''))
   \<and> (\<exists>stem. generateFilename t = stem @ ''.md'' \<and> (\<forall>c\<in>set stem. lower_alnum_or_underscore c))
   \<and> generateFilename ''My Thread : r/test'' = ''my_thread.md''
   \<and> generateFilename [] = ''.md''"
proof -
  have a: "generateFilename t = deriveFilename t
      \<and> generateFilename t = map lower_char (map sanitize_char t) @ ''.md''"
    if "\<not> has_marker t"
    using that
    by (simp add: generateFilename_def deriveFilename_def strip_no_marker spec_strip_no_marker)
  have b: "generateFilename (p @ '' : r/'' @ n) = deriveFilename (p @ '' : r/'' @ n)
        \<and> generateFilename (p @ '' : r/'' @ n) = map lower_char (map sanitize_char p) @ ''.md''"
    if "\<not> has_marker p" "n \<noteq> []" "\<forall>c\<in>set n. subreddit_name_char c"
  proof -
    have "\<forall>c\<in>set n. \<not> is_line_terminator c"
      using that(3) name_char_not_terminator by blast
    then have "strip_subreddit (p @ subreddit_marker @ n) = p"
      using that(1) by (rule strip_first_marker [rotated])
    moreover have "strip_trailing_subreddit (p @ subreddit_marker @ n) = p"
      using that(2,3) by (rule spec_strip_suffix)
    ultimately show ?thesis
      by (simp add: generateFilename_def deriveFilename_def subreddit_marker_def)
  qed
  have c: "\<exists>p r. t = p @ '' : r/'' @ r \<and> \<not> has_marker p
               \<and> generateFilename t =
                   map lower_char
                     (map sanitize_char (p @ dropWhile (\<lambda>x. \<not> is_line_terminator x) r))
                   @ ''.md''"
    if "has_marker t"
  proof -
    from strip_marked [OF that] obtain p r where
      "t = p @ subreddit_marker @ r" "\<not> has_marker p"
      "strip_subreddit t = p @ dropWhile (\<lambda>x. \<not> is_line_terminator x) r"
      by blast
    then have "t = p @ '' : r/'' @ r \<and> \<not> has_marker p
               \<and> generateFilename t =
                   map lower_char
                     (map sanitize_char (p @ dropWhile (\<lambda>x. \<not> is_line_terminator x) r))
                   @ ''.md''"
      by (simp add: generateFilename_def subreddit_marker_def)
    then show ?thesis by blast
  qed
  have d: "\<exists>stem. generateFilename t = stem @ ''.md'' \<and> (\<forall>c\<in>set stem. lower_alnum_or_underscore c)"
    by (simp add: generateFilename_def stem_chars)
  have e: "generateFilename ''My Thread : r/test'' = ''my_thread.md''"
    by code_simp
  have f: "generateFilename [] = ''.md''"
    by (simp add: generateFilename_def)
  show ?thesis
    using a b c d e f by blast
qed

theorem C6_generateFilename_witness:
  "\<not> has_marker ''My Thread'' \<and> has_marker ''My Thread : r/test''
   \<and> list_all subreddit_name_char ''test''
   \<and> generateFilename ''My Thread : r/test'' = deriveFilename ''My Thread : r/test''
   \<and> deriveFilename ''My Thread : r/test'' = ''my_thread.md''
   \<and> generateFilename ''My Thread'' = deriveFilename ''My Thread''"
proof -
  have h: "\<not> has_marker ''My Thread''" "has_marker ''My Thread : r/test''"
    by (simp_all add: subreddit_marker_def)
  have n: "''test'' \<noteq> []" "\<forall>c\<in>set ''test''. subreddit_name_char c"
    by (simp_all add: subreddit_name_char_def is_alnum_def)
  have eq: "''My Thread'' @ '' : r/'' @ ''test'' = ''My Thread : r/test''"
    by simp
  have d: "deriveFilename ''My Thread : r/test'' = ''my_thread.md''"
    by code_simp
  have l: "list_all subreddit_name_char ''test''"
    by (simp add: subreddit_name_char_def is_alnum_def)
  show ?thesis
    using h n d l C6_generateFilename [of "''My Thread''" "''My Thread''" "''test''", unfolded eq]
    by blast
qed

end
